theory Spec2Isabelle
  imports Main "HOL-Library.Product_Lexorder"
begin

section \<open>Librarian 2.0: data model\<close>

text \<open>
  Python strings are modelled as \<open>string\<close> (lists of 8-bit characters), read as the
  code points 0..255 of Unicode (the Latin-1 block); every character function below
  (\<open>lower\<close>, whitespace, word characters) is Python's on that range.  Dictionaries are
  association lists in insertion order, as Python iterates them; a dictionary has no
  repeated key.  \<open>Optional[str]\<close> is \<open>string option\<close>.

  A source name that starts with an underscore loses it: \<open>_service_name_normalize\<close> is
  \<open>service_name_normalize\<close>, \<open>_git\<close> is \<open>git_query\<close>, \<open>_get_briefing\<close> is \<open>get_briefing\<close>,
  and \<open>_warning_level\<close> is \<open>warning_level_of\<close> (\<open>warning_level\<close> is the field of the
  briefing).
\<close>

subsection \<open>detector.py: verdicts, severities and the Claim dataclass\<close>

definition VERIFIED :: string where "VERIFIED = ''VERIFIED''"
definition ILLUSION :: string where "ILLUSION = ''ILLUSION''"
definition UNVERIFIABLE :: string where "UNVERIFIABLE = ''UNVERIFIABLE''"
definition STALE :: string where "STALE = ''STALE''"

definition SEVERITY_HIGH :: string where "SEVERITY_HIGH = ''HIGH''"
definition SEVERITY_MEDIUM :: string where "SEVERITY_MEDIUM = ''MEDIUM''"
definition SEVERITY_LOW :: string where "SEVERITY_LOW = ''LOW''"

text \<open>The field \<open>note\<close> of the dataclass is \<open>claim_note\<close> here.\<close>

record Claim =
  entry_id :: string
  entry_priority :: string
  claim_type :: string
  claim_text :: string
  expected_value :: string
  verdict :: string
  actual_value :: "string option"
  severity :: string
  claim_note :: "string option"

subsection \<open>scanner.py: the probe results\<close>

text \<open>
  \<open>GitState\<close>, \<open>ServiceState\<close> and \<open>RealitySnapshot\<close>, field by field.  A path is its
  text.  \<open>ServiceState.response_ms\<close> is a float that the modelled code only renders into
  text, so the field holds that rendering (\<open>str\<close> of the float);
  \<open>ServiceState.health_detail\<close> (a JSON object) and the snapshot's \<open>scan_duration_ms\<close>,
  \<open>librarian\<close> and \<open>sapphire\<close> are read by none of the functions modelled here and are
  left out.  The fields \<open>name\<close> and \<open>error\<close> of \<open>ServiceState\<close> are \<open>svc_name\<close> and
  \<open>svc_error\<close>.  \<open>scanned_at\<close> is the instant the scan started, in microseconds (the
  source keeps its ISO-8601 text).
\<close>

record GitState =
  repo_name :: string
  repo_path :: string
  available :: bool
  head_commit :: "string option"
  branch :: "string option"
  untracked :: "string list"
  modified :: "string list"
  staged :: "string list"
  ahead_behind :: "string option"
  error :: "string option"

record ServiceState =
  svc_name :: string
  url :: string
  reachable :: bool
  status_code :: "int option"
  response_ms :: "string option"
  version :: "string option"
  svc_error :: "string option"

record RealitySnapshot =
  scanned_at :: int
  git :: "(string \<times> GitState) list"
  services :: "(string \<times> ServiceState) list"
  filesystem :: "(string \<times> bool) list"


subsection \<open>Python's string functions on the code points 0..255\<close>

definition code :: "char \<Rightarrow> nat" where
  "code c = of_char c"

text \<open>\<open>str.lower\<close>: A..Z and the Latin-1 capitals 0xC0..0xDE (but the sign 0xD7) move up by 32.\<close>

definition lower_char :: "char \<Rightarrow> char" where
  "lower_char c =
     (let n = code c
      in if (65 \<le> n \<and> n \<le> 90) \<or> (192 \<le> n \<and> n \<le> 222 \<and> n \<noteq> 215)
         then char_of (n + 32) else c)"

definition lower :: "string \<Rightarrow> string" where
  "lower s = map lower_char s"

text \<open>\<open>str.isspace\<close>, which is also the class \<open>\s\<close> of \<open>re\<close> on \<open>str\<close> patterns.\<close>

definition is_space :: "char \<Rightarrow> bool" where
  "is_space c = (let n = code c in (9 \<le> n \<and> n \<le> 13) \<or> (28 \<le> n \<and> n \<le> 32) \<or> n = 133 \<or> n = 160)"

text \<open>The class \<open>\d\<close>: on this range, the digits 0..9.\<close>

definition is_digit :: "char \<Rightarrow> bool" where
  "is_digit c = (let n = code c in 48 \<le> n \<and> n \<le> 57)"

text \<open>
  The class \<open>\w\<close>, which decides \<open>\b\<close>: alphanumeric code points and the underscore.  On
  this range: 0..9, A..Z, a..z, the underscore, 0xAA, 0xB2, 0xB3, 0xB5, 0xB9, 0xBA,
  0xBC..0xBE, 0xC0..0xD6, 0xD8..0xF6, 0xF8..0xFF.
\<close>

definition is_word :: "char \<Rightarrow> bool" where
  "is_word c =
     (let n = code c
      in (48 \<le> n \<and> n \<le> 57) \<or> (65 \<le> n \<and> n \<le> 90) \<or> n = 95 \<or> (97 \<le> n \<and> n \<le> 122) \<or>
         n = 170 \<or> n = 178 \<or> n = 179 \<or> n = 181 \<or> n = 185 \<or> n = 186 \<or>
         (188 \<le> n \<and> n \<le> 190) \<or> (192 \<le> n \<and> n \<le> 214) \<or> (216 \<le> n \<and> n \<le> 246) \<or>
         248 \<le> n)"

text \<open>The class \<open>[0-9a-f]\<close> under \<open>re.IGNORECASE\<close>: A..F match as well.\<close>

definition is_hex :: "char \<Rightarrow> bool" where
  "is_hex c =
     (let n = code c in (48 \<le> n \<and> n \<le> 57) \<or> (65 \<le> n \<and> n \<le> 70) \<or> (97 \<le> n \<and> n \<le> 102))"

text \<open>The class \<open>[A-Za-z0-9_\-/\\]\<close> of the file pattern.\<close>

definition is_path_char :: "char \<Rightarrow> bool" where
  "is_path_char c =
     (let n = code c
      in (48 \<le> n \<and> n \<le> 57) \<or> (65 \<le> n \<and> n \<le> 90) \<or> (97 \<le> n \<and> n \<le> 122) \<or>
         n = 95 \<or> n = 45 \<or> n = 47 \<or> n = 92)"

text \<open>The dot (no \<open>re.DOTALL\<close>) and the class \<open>[^\n]\<close>: anything but the line feed.\<close>

definition not_newline :: "char \<Rightarrow> bool" where
  "not_newline c = (code c \<noteq> 10)"

text \<open>\<open>sub in s\<close> on strings, \<open>s.startswith(p)\<close>, \<open>s.strip()\<close>.\<close>

fun contains :: "string \<Rightarrow> string \<Rightarrow> bool" where
  "contains sub [] = (sub = [])"
| "contains sub (c # s) = (take (length sub) (c # s) = sub \<or> contains sub s)"

definition startswith :: "string \<Rightarrow> string \<Rightarrow> bool" where
  "startswith s p = (take (length p) s = p)"


text \<open>\<open>str\<close> of an \<open>Optional[str]\<close> inside an f-string: the text, or \<open>None\<close>.\<close>

definition str_opt :: "string option \<Rightarrow> string" where
  "str_opt v = (case v of None \<Rightarrow> ''None'' | Some s \<Rightarrow> s)"

text \<open>\<open>str\<close> of an integer: its decimal digits, with a minus sign below zero.\<close>

fun str_nat :: "nat \<Rightarrow> string" where
  "str_nat n = (if n < 10 then [char_of (48 + n)] else str_nat (n div 10) @ [char_of (48 + n mod 10)])"

definition str_int :: "int \<Rightarrow> string" where
  "str_int i = (if i < 0 then CHR ''-'' # str_nat (nat (- i)) else str_nat (nat i))"

definition str_opt_int :: "int option \<Rightarrow> string" where
  "str_opt_int v = (case v of None \<Rightarrow> ''None'' | Some i \<Rightarrow> str_int i)"

text \<open>
  \<open>repr\<close> of a string, as \<open>str\<close> of a dictionary renders its keys and values: in single
  quotes, or in double quotes when the text has a single quote and no double quote;
  the quote in use and the backslash are escaped by a backslash, tab, line feed and
  carriage return are \<open>\t\<close>, \<open>\n\<close>, \<open>\r\<close>, and every other non-printable code point
  (below 0x20, 0x7F..0xA0, 0xAD) is \<open>\xhh\<close>.
\<close>

definition hex_digit :: "nat \<Rightarrow> char" where
  "hex_digit d = (if d < 10 then char_of (48 + d) else char_of (87 + d))"

definition repr_char :: "char \<Rightarrow> char \<Rightarrow> string" where
  "repr_char q c =
     (let n = code c
      in if c = q \<or> n = 92 then [CHR 0x5C, c]
         else if n = 9 then [CHR 0x5C, CHR ''t'']
         else if n = 10 then [CHR 0x5C, CHR ''n'']
         else if n = 13 then [CHR 0x5C, CHR ''r'']
         else if n < 32 \<or> (127 \<le> n \<and> n \<le> 160) \<or> n = 173
           then [CHR 0x5C, CHR ''x'', hex_digit (n div 16), hex_digit (n mod 16)]
         else [c])"

definition repr_str :: "string \<Rightarrow> string" where
  "repr_str s =
     (let q = (if CHR 0x27 \<in> set s \<and> CHR 0x22 \<notin> set s then CHR 0x22 else CHR 0x27)
      in q # concat (map (repr_char q) s) @ [q])"

fun join :: "string \<Rightarrow> string list \<Rightarrow> string" where
  "join sep [] = []"
| "join sep [x] = x"
| "join sep (x # y # ys) = x @ sep @ join sep (y # ys)"

definition str_dict :: "(string \<times> string) list \<Rightarrow> string" where
  "str_dict d = ''{'' @ join '', '' (map (\<lambda>(k, v). repr_str k @ '': '' @ repr_str v) d) @ ''}''"

subsection \<open>The regular expressions of detector.py\<close>

text \<open>
  \<^verbatim>\<open>
  RE_COMMIT_CONTEXT = re.compile(r'(?:master|HEAD|branch|commit|at)\s+([0-9a-f]{7,10})\b', re.IGNORECASE)
  RE_SERVICE_UP = re.compile(r'(lxr-5|coach|cloudeye-lxr|cloudeye-ui)[^\n]*:\s*(UP|LIVE|healthy|running|operational)', re.IGNORECASE)
  RE_SERVICE_DOWN = re.compile(r'(lxr-5|coach|cloudeye-lxr|cloudeye-ui)[^\n]*:\s*(DOWN|failed|error|unreachable)', re.IGNORECASE)
  RE_BUG_ACTIVE = re.compile(r'(?:BUG\s*\d+|no such table|no such column|attribute.*get|sqlite3\.Row).*', re.IGNORECASE)
  RE_FILE_CLAIM = re.compile(r'(?:committed|deployed|created|exists|saved).*?([A-Za-z0-9_\-/\\]+\.(?:py|md|js|ts|jsx|sql|toml|json))\b', re.IGNORECASE)
  re.search(r'BUG INVENTORY|KNOWN RUNTIME|BEFORE STATE|runtime bugs', content, re.IGNORECASE)
  \<close>
  The last pattern stands inline in \<open>extract_claims\<close> and is \<open>RE_BUG_MARKER\<close> here.  The
  module compiles three more patterns (\<open>RE_COMMIT\<close>, \<open>RE_BUG_FIXED\<close>, \<open>RE_UNTRACKED\<close>) that
  no function uses; they are left out.

  The patterns are compiled with \<open>re.IGNORECASE\<close> and only ever repeat a single
  character class, so the matcher below has: a literal text compared case-insensitively,
  one character of a class, a class repeated between a lower and an optional upper bound
  (greedy, or lazy for \<open>*?\<close>), sequence, alternation, a numbered group and \<open>\b\<close>.

  A matcher state is the text already passed (reversed, so that its head is the previous
  character), the text still to read and the groups captured so far.  \<open>rx_run\<close> lists
  every way the pattern can match from a state, in the order in which Python's
  backtracking matcher tries them: the first alternative before the second, the longest
  repetition first when greedy and the shortest first when lazy.  The match Python
  reports is the head of the list.
\<close>

datatype rx =
    Lit string
  | Cls "char \<Rightarrow> bool"
  | Rep "char \<Rightarrow> bool" nat "nat option" bool
  | Seq rx rx
  | Alt rx rx
  | Grp nat rx
  | WordB

type_synonym mstate = "string \<times> string \<times> (nat \<times> string) list"

fun run_length :: "(char \<Rightarrow> bool) \<Rightarrow> nat option \<Rightarrow> string \<Rightarrow> nat" where
  "run_length f hi [] = 0"
| "run_length f hi (c # s) =
     (if hi = Some 0 \<or> \<not> f c then 0
      else Suc (run_length f (map_option (\<lambda>h. h - 1) hi) s))"

definition advance :: "nat \<Rightarrow> mstate \<Rightarrow> mstate" where
  "advance k st = (case st of (p, s, g) \<Rightarrow> (rev (take k s) @ p, drop k s, g))"

definition at_boundary :: "string \<Rightarrow> string \<Rightarrow> bool" where
  "at_boundary p s =
     ((case p of [] \<Rightarrow> False | c # _ \<Rightarrow> is_word c) \<noteq> (case s of [] \<Rightarrow> False | c # _ \<Rightarrow> is_word c))"

text \<open>Does the text start with the literal, compared case-insensitively?\<close>

fun ci_prefix :: "string \<Rightarrow> string \<Rightarrow> bool" where
  "ci_prefix [] s = True"
| "ci_prefix (a # l) [] = False"
| "ci_prefix (a # l) (b # s) = (if lower_char a = lower_char b then ci_prefix l s else False)"

fun rx_run :: "rx \<Rightarrow> mstate \<Rightarrow> mstate list" where
  "rx_run (Lit l) (p, s, g) = (if ci_prefix l s then [advance (length l) (p, s, g)] else [])"
| "rx_run (Cls f) (p, s, g) =
     (case s of [] \<Rightarrow> [] | c # s' \<Rightarrow> if f c then [advance 1 (p, s, g)] else [])"
| "rx_run (Rep f lo hi greedy) (p, s, g) =
     (let ks = [lo ..< Suc (run_length f hi s)]
      in map (\<lambda>k. advance k (p, s, g)) (if greedy then rev ks else ks))"
| "rx_run (Seq a b) st = concat (map (rx_run b) (rx_run a st))"
| "rx_run (Alt a b) st = rx_run a st @ rx_run b st"
| "rx_run (Grp i a) (p, s, g) =
     map (\<lambda>(p', s', g'). (p', s', (i, rev (take (length p' - length p) p')) # g'))
         (rx_run a (p, s, g))"
| "rx_run WordB (p, s, g) = (if at_boundary p s then [(p, s, g)] else [])"

fun alts :: "rx \<Rightarrow> rx list \<Rightarrow> rx" where
  "alts r [] = r"
| "alts r (x # xs) = Alt r (alts x xs)"

fun seqs :: "rx \<Rightarrow> rx list \<Rightarrow> rx" where
  "seqs r [] = r"
| "seqs r (x # xs) = Seq r (seqs x xs)"

text \<open>
  A match object: \<open>group(0)\<close> and the numbered groups.  In every pattern below the groups
  the code reads stand outside every alternative, so they take part in each match.
\<close>

record rmatch =
  group0 :: string
  groups :: "(nat \<times> string) list"

definition group_at :: "rmatch \<Rightarrow> nat \<Rightarrow> string" where
  "group_at m i = (case map_of (groups m) i of Some t \<Rightarrow> t | None \<Rightarrow> [])"

text \<open>
  \<open>pattern.finditer(content)\<close>: the matches from left to right, without overlap.  From
  each position the first way to match is taken; the scan goes on where the match
  ended, or one character further where nothing matched.  (No pattern of the file
  matches the empty text; were a match empty the scan would move on by one character.)
\<close>

function finditer_from :: "rx \<Rightarrow> string \<Rightarrow> string \<Rightarrow> rmatch list" where
  "finditer_from r p s =
     (case rx_run r (p, s, []) of
        [] \<Rightarrow> (case s of [] \<Rightarrow> [] | c # s' \<Rightarrow> finditer_from r (c # p) s')
      | (p', s', g) # _ \<Rightarrow>
          \<lparr> group0 = rev (take (length p' - length p) p'), groups = g \<rparr> #
          (if length s' < length s then finditer_from r p' s'
           else (case s of [] \<Rightarrow> [] | c # s'' \<Rightarrow> finditer_from r (c # p) s'')))"
  by pat_completeness auto
termination
  by (relation "measure (\<lambda>(r, p, s). length s)") auto

definition finditer :: "rx \<Rightarrow> string \<Rightarrow> rmatch list" where
  "finditer r content = finditer_from r [] content"

text \<open>\<open>re.search(pattern, content)\<close> as a truth value: is there a match anywhere.\<close>

definition search :: "rx \<Rightarrow> string \<Rightarrow> bool" where
  "search r content = (finditer r content \<noteq> [])"

definition RE_COMMIT_CONTEXT :: rx where
  "RE_COMMIT_CONTEXT =
     seqs (alts (Lit ''master'') [Lit ''HEAD'', Lit ''branch'', Lit ''commit'', Lit ''at''])
       [Rep is_space 1 None True,
        Grp 1 (Rep is_hex 7 (Some 10) True),
        WordB]"

definition service_token :: rx where
  "service_token = alts (Lit ''lxr-5'') [Lit ''coach'', Lit ''cloudeye-lxr'', Lit ''cloudeye-ui'']"

definition RE_SERVICE_UP :: rx where
  "RE_SERVICE_UP =
     seqs (Grp 1 service_token)
       [Rep not_newline 0 None True,
        Lit '':'',
        Rep is_space 0 None True,
        Grp 2 (alts (Lit ''UP'') [Lit ''LIVE'', Lit ''healthy'', Lit ''running'', Lit ''operational''])]"

definition RE_SERVICE_DOWN :: rx where
  "RE_SERVICE_DOWN =
     seqs (Grp 1 service_token)
       [Rep not_newline 0 None True,
        Lit '':'',
        Rep is_space 0 None True,
        Grp 2 (alts (Lit ''DOWN'') [Lit ''failed'', Lit ''error'', Lit ''unreachable''])]"

definition RE_BUG_MARKER :: rx where
  "RE_BUG_MARKER =
     alts (Lit ''BUG INVENTORY'') [Lit ''KNOWN RUNTIME'', Lit ''BEFORE STATE'', Lit ''runtime bugs'']"

definition RE_BUG_ACTIVE :: rx where
  "RE_BUG_ACTIVE =
     Seq (alts (seqs (Lit ''BUG'') [Rep is_space 0 None True, Rep is_digit 1 None True])
            [Lit ''no such table'',
             Lit ''no such column'',
             seqs (Lit ''attribute'') [Rep not_newline 0 None True, Lit ''get''],
             Lit ''sqlite3.Row''])
         (Rep not_newline 0 None True)"

definition RE_FILE_CLAIM :: rx where
  "RE_FILE_CLAIM =
     seqs (alts (Lit ''committed'') [Lit ''deployed'', Lit ''created'', Lit ''exists'', Lit ''saved''])
       [Rep not_newline 0 None False,
        Grp 1 (seqs (Rep is_path_char 1 None True)
                 [Lit ''.'',
                  alts (Lit ''py'') [Lit ''md'', Lit ''js'', Lit ''ts'', Lit ''jsx'', Lit ''sql'',
                                     Lit ''toml'', Lit ''json'']]),
        WordB]"

subsection \<open>detector.py: extracting claims\<close>

text \<open>
  \<^verbatim>\<open>
  def _service_name_normalize(raw):
      raw = raw.lower()
      if "lxr-5" in raw or "lxr5" in raw:   return "lxr-5"
      if "coach" in raw:                      return "coach"
      if "cloudeye-lxr" in raw:              return "lxr"
      if "cloudeye-ui" in raw or "ui" in raw: return "ui"
      return None
  \<close>
\<close>

definition service_name_normalize :: "string \<Rightarrow> string option" where
  "service_name_normalize raw0 =
     (let raw = lower raw0
      in if contains ''lxr-5'' raw \<or> contains ''lxr5'' raw then Some ''lxr-5''
         else if contains ''coach'' raw then Some ''coach''
         else if contains ''cloudeye-lxr'' raw then Some ''lxr''
         else if contains ''cloudeye-ui'' raw \<or> contains ''ui'' raw then Some ''ui''
         else None)"

text \<open>
  The constructor call \<open>Claim(entry_id=..., entry_priority=..., claim_type=...,
  claim_text=..., expected_value=..., verdict=...)\<close> with the dataclass defaults
  \<open>actual_value=None\<close>, \<open>severity=SEVERITY_LOW\<close>, \<open>note=None\<close>.
\<close>

definition new_claim :: "string \<Rightarrow> string \<Rightarrow> string \<Rightarrow> string \<Rightarrow> string \<Rightarrow> string \<Rightarrow> Claim" where
  "new_claim eid prio ctype text expected v =
     \<lparr> entry_id = eid, entry_priority = prio, claim_type = ctype, claim_text = text,
       expected_value = expected, verdict = v, actual_value = None,
       severity = SEVERITY_LOW, claim_note = None \<rparr>"

text \<open>
  \<open>extract_claims\<close> appends, in this order: one \<open>git_commit\<close> claim per match of
  \<open>RE_COMMIT_CONTEXT\<close>; one \<open>service_health\<close> claim \<open><service>:UP\<close> per match of
  \<open>RE_SERVICE_UP\<close> whose service name normalises; when the content has a bug-inventory
  marker, one \<open>bug_active\<close> claim of severity HIGH per match of \<open>RE_BUG_ACTIVE\<close>; one
  \<open>file_exists\<close> claim per match of \<open>RE_FILE_CLAIM\<close> whose file name is longer than four
  characters.  \<open>RE_SERVICE_DOWN\<close> is compiled by the module and used by no function.
\<close>

definition commit_claims :: "string \<Rightarrow> string \<Rightarrow> string \<Rightarrow> Claim list" where
  "commit_claims eid prio content =
     map (\<lambda>m. new_claim eid prio ''git_commit'' (group0 m) (lower (group_at m 1)) UNVERIFIABLE)
         (finditer RE_COMMIT_CONTEXT content)"

definition service_claims :: "string \<Rightarrow> string \<Rightarrow> string \<Rightarrow> Claim list" where
  "service_claims eid prio content =
     concat (map (\<lambda>m. case service_name_normalize (group_at m 1) of
                         None \<Rightarrow> []
                       | Some sname \<Rightarrow>
                           if sname = [] then []
                           else [new_claim eid prio ''service_health'' (group0 m)
                                   (sname @ '':UP'') UNVERIFIABLE])
                 (finditer RE_SERVICE_UP content))"

definition bug_claims :: "string \<Rightarrow> string \<Rightarrow> string \<Rightarrow> Claim list" where
  "bug_claims eid prio content =
     (if search RE_BUG_MARKER content
      then map (\<lambda>m. (new_claim eid prio ''bug_active'' (take 120 (group0 m)) ''bug:present''
                        UNVERIFIABLE) \<lparr> severity := SEVERITY_HIGH \<rparr>)
               (finditer RE_BUG_ACTIVE content)
      else [])"

definition file_claims :: "string \<Rightarrow> string \<Rightarrow> string \<Rightarrow> Claim list" where
  "file_claims eid prio content =
     concat (map (\<lambda>m. let fname = group_at m 1
                       in if length fname > 4
                          then [new_claim eid prio ''file_exists'' (take 120 (group0 m)) fname
                                  UNVERIFIABLE]
                          else [])
                 (finditer RE_FILE_CLAIM content))"

definition extract_claims :: "string \<Rightarrow> string \<Rightarrow> string \<Rightarrow> Claim list" where
  "extract_claims eid prio content =
     commit_claims eid prio content @ service_claims eid prio content @
     bug_claims eid prio content @ file_claims eid prio content"

subsection \<open>detector.py: verifying claims\<close>

text \<open>
  \<open>verify_claims\<close> rewrites each claim in place and appends it to its result; the model
  returns the rewritten claim.  (Every branch sets the fields it sets whatever they held,
  so a claim object listed twice would end as it does here.)

  The \<open>git_commit\<close> branch: the loop over \<open>reality.git.items()\<close> stops at the first
  repository whose head is truthy (neither \<open>None\<close> nor empty) and, lower-cased, starts
  with the lower-cased expected value.
\<close>

definition head_matches :: "string \<Rightarrow> GitState \<Rightarrow> bool" where
  "head_matches expected g =
     (case head_commit g of
        None \<Rightarrow> False
      | Some h \<Rightarrow> h \<noteq> [] \<and> startswith (lower h) (lower expected))"

text \<open>\<open>{r: g.head_commit for r, g in reality.git.items() if g.head_commit}\<close>\<close>

definition actual_commits :: "(string \<times> GitState) list \<Rightarrow> (string \<times> string) list" where
  "actual_commits gs =
     concat (map (\<lambda>(r, g). case head_commit g of
                               None \<Rightarrow> []
                             | Some h \<Rightarrow> if h = [] then [] else [(r, h)]) gs)"

definition verify_git_commit :: "Claim \<Rightarrow> RealitySnapshot \<Rightarrow> Claim" where
  "verify_git_commit claim reality =
     (case find (\<lambda>(rname, g). head_matches (expected_value claim) g) (git reality) of
        Some (rname, g) \<Rightarrow>
          claim \<lparr> verdict := VERIFIED,
                  actual_value := head_commit g,
                  claim_note := Some (''Matches '' @ rname @ '' HEAD'') \<rparr>
      | None \<Rightarrow>
          claim \<lparr> verdict := ILLUSION,
                  actual_value := Some (str_dict (actual_commits (git reality))),
                  severity := SEVERITY_MEDIUM,
                  claim_note := Some ''Commit not found as HEAD in any known repo'' \<rparr>)"

text \<open>
  \<open>sname, expected_status = claim.expected_value.split(":", 1)\<close>: the text before the
  first colon and the text after it; with no colon the unpacking raises \<open>ValueError\<close>,
  which is \<open>None\<close> here.
\<close>

definition split_colon :: "string \<Rightarrow> (string \<times> string) option" where
  "split_colon s =
     (if CHR '':'' \<in> set s
      then Some (takeWhile (\<lambda>c. c \<noteq> CHR '':'') s, tl (dropWhile (\<lambda>c. c \<noteq> CHR '':'') s))
      else None)"

definition verify_service_health :: "Claim \<Rightarrow> RealitySnapshot \<Rightarrow> Claim option" where
  "verify_service_health claim reality =
     (case split_colon (expected_value claim) of
        None \<Rightarrow> None
      | Some (sname, expected_status) \<Rightarrow>
          Some (case map_of (services reality) sname of
                  None \<Rightarrow>
                    claim \<lparr> verdict := UNVERIFIABLE,
                            claim_note := Some (''Service '' @ [CHR 0x27] @ sname @ [CHR 0x27] @
                                                '' not in scan scope'') \<rparr>
                | Some svc \<Rightarrow>
                    if reachable svc \<and> expected_status = ''UP'' then
                      claim \<lparr> verdict := VERIFIED,
                              actual_value := Some (''HTTP '' @ str_opt_int (status_code svc) @
                                                    '' ('' @ str_opt (response_ms svc) @ ''ms)'') \<rparr>
                    else if \<not> reachable svc \<and> expected_status = ''DOWN'' then
                      claim \<lparr> verdict := VERIFIED,
                              actual_value := Some (''Unreachable: '' @ str_opt (svc_error svc)) \<rparr>
                    else if \<not> reachable svc \<and> expected_status = ''UP'' then
                      claim \<lparr> verdict := ILLUSION,
                              actual_value := Some (''Service DOWN: '' @ str_opt (svc_error svc)),
                              severity := SEVERITY_HIGH,
                              claim_note := Some ''Service claimed UP but is unreachable'' \<rparr>
                    else claim \<lparr> verdict := UNVERIFIABLE \<rparr>))"

definition verify_bug_active :: "Claim \<Rightarrow> Claim" where
  "verify_bug_active claim =
     claim \<lparr> verdict := UNVERIFIABLE,
             claim_note := Some ''Bug status requires code inspection or live test to verify'' \<rparr>"

text \<open>\<open>fname.replace("\\", "/")\<close>\<close>

definition slashes :: "string \<Rightarrow> string" where
  "slashes s = map (\<lambda>c. if c = CHR 0x5C then CHR ''/'' else c) s"

definition verify_file_exists :: "Claim \<Rightarrow> RealitySnapshot \<Rightarrow> Claim" where
  "verify_file_exists claim reality =
     (let fname = expected_value claim
      in case find (\<lambda>(key, exists). contains (lower (slashes fname)) (lower key) \<or>
                                     contains (lower key) (lower (slashes fname)))
                   (filesystem reality) of
           Some (key, exists) \<Rightarrow>
             if exists then
               claim \<lparr> verdict := VERIFIED, actual_value := Some (''Found: '' @ key) \<rparr>
             else
               claim \<lparr> verdict := ILLUSION,
                       actual_value := Some (''NOT found: '' @ key),
                       severity := SEVERITY_MEDIUM,
                       claim_note := Some ''File claimed to exist but not found on filesystem'' \<rparr>
         | None \<Rightarrow>
             claim \<lparr> verdict := UNVERIFIABLE,
                     claim_note := Some ''File not in known scan paths'' \<rparr>)"

text \<open>One turn of the loop of \<open>verify_claims\<close>; a claim of any other type is kept as it is.\<close>

definition verify_claim :: "RealitySnapshot \<Rightarrow> Claim \<Rightarrow> Claim option" where
  "verify_claim reality claim =
     (if claim_type claim = ''git_commit'' then Some (verify_git_commit claim reality)
      else if claim_type claim = ''service_health'' then verify_service_health claim reality
      else if claim_type claim = ''bug_active'' then Some (verify_bug_active claim)
      else if claim_type claim = ''file_exists'' then Some (verify_file_exists claim reality)
      else Some claim)"

fun verify_claims :: "Claim list \<Rightarrow> RealitySnapshot \<Rightarrow> Claim list option" where
  "verify_claims [] reality = Some []"
| "verify_claims (claim # claims) reality =
     (case verify_claim reality claim of
        None \<Rightarrow> None
      | Some c \<Rightarrow> (case verify_claims claims reality of
                     None \<Rightarrow> None
                   | Some cs \<Rightarrow> Some (c # cs)))"

subsection \<open>detector.py: detect_illusions\<close>

text \<open>
  \<^verbatim>\<open>
      seen = set()
      unique_claims = []
      for c in all_claims:
          key = (c.claim_type, c.expected_value[:40])
          if key not in seen:
              seen.add(key)
              unique_claims.append(c)
  \<close>
\<close>

definition dedup_key :: "Claim \<Rightarrow> string \<times> string" where
  "dedup_key c = (claim_type c, take 40 (expected_value c))"

definition dedup_step :: "(string \<times> string) set \<times> Claim list \<Rightarrow> Claim \<Rightarrow> (string \<times> string) set \<times> Claim list" where
  "dedup_step st c =
     (case st of (seen, unique_claims) \<Rightarrow>
        if dedup_key c \<notin> seen then (insert (dedup_key c) seen, unique_claims @ [c])
        else (seen, unique_claims))"

definition deduplicate :: "Claim list \<Rightarrow> Claim list" where
  "deduplicate all_claims = snd (foldl dedup_step ({}, []) all_claims)"

text \<open>
  \<^verbatim>\<open>
      sev_order = {SEVERITY_HIGH: 0, SEVERITY_MEDIUM: 1, SEVERITY_LOW: 2}
      verdict_order = {ILLUSION: 0, UNVERIFIABLE: 1, VERIFIED: 2, STALE: 3}
      return sorted(verified, key=lambda c: (verdict_order.get(c.verdict, 9), sev_order.get(c.severity, 9)))
  \<close>
  Python compares the key tuples lexicographically, which is the order of pairs here;
  \<open>sorted\<close> is stable, as \<open>sort_key\<close> is.
\<close>

definition sev_order :: "(string \<times> nat) list" where
  "sev_order = [(SEVERITY_HIGH, 0), (SEVERITY_MEDIUM, 1), (SEVERITY_LOW, 2)]"

definition verdict_order :: "(string \<times> nat) list" where
  "verdict_order = [(ILLUSION, 0), (UNVERIFIABLE, 1), (VERIFIED, 2), (STALE, 3)]"

definition dict_get :: "(string \<times> nat) list \<Rightarrow> string \<Rightarrow> nat \<Rightarrow> nat" where
  "dict_get d k dflt = (case map_of d k of None \<Rightarrow> dflt | Some v \<Rightarrow> v)"

definition claim_sort_key :: "Claim \<Rightarrow> nat \<times> nat" where
  "claim_sort_key c = (dict_get verdict_order (verdict c) 9, dict_get sev_order (severity c) 9)"

text \<open>
  The entries are the rows \<open>(id, priority, category, content)\<close> that
  \<open>load_current_focus_entries\<close> read from the database, the id as the text \<open>str(entry_id)\<close>.
  \<open>None\<close>: \<open>verify_claims\<close> raised.
\<close>

definition all_extracted :: "(string \<times> string \<times> string \<times> string) list \<Rightarrow> Claim list" where
  "all_extracted entries =
     concat (map (\<lambda>(eid, prio, category, content). extract_claims eid prio content) entries)"

definition detect_illusions ::
  "(string \<times> string \<times> string \<times> string) list \<Rightarrow> RealitySnapshot \<Rightarrow> Claim list option" where
  "detect_illusions entries reality =
     (let all_claims = all_extracted entries;
          unique_claims = deduplicate all_claims
      in case verify_claims unique_claims reality of
           None \<Rightarrow> None
         | Some verified \<Rightarrow> Some (sort_key claim_sort_key verified))"

subsection \<open>scanner.py: probing a repository\<close>









subsection \<open>engine.py: the warning level\<close>

text \<open>
  \<^verbatim>\<open>
  def _warning_level(illusions, down_svcs):
      if down_svcs or any(c.severity == SEVERITY_HIGH for c in illusions if c.verdict == ILLUSION):
          return "RED"
      if any(c.severity == SEVERITY_MEDIUM for c in illusions if c.verdict == ILLUSION):
          return "AMBER"
      return "GREEN"
  \<close>
\<close>

definition warning_level_of :: "Claim list \<Rightarrow> string list \<Rightarrow> string" where
  "warning_level_of illusions down_svcs =
     (if down_svcs \<noteq> [] \<or>
         list_ex (\<lambda>c. severity c = SEVERITY_HIGH) (filter (\<lambda>c. verdict c = ILLUSION) illusions)
      then ''RED''
      else if list_ex (\<lambda>c. severity c = SEVERITY_MEDIUM) (filter (\<lambda>c. verdict c = ILLUSION) illusions)
      then ''AMBER''
      else ''GREEN'')"

text \<open>
  The part of \<open>synthesize\<close> that decides the claims' partition and the warning level:
  \<^verbatim>\<open>
      illusions   = [c for c in illusion_claims if c.verdict == ILLUSION]
      unverif     = [c for c in illusion_claims if c.verdict == UNVERIFIABLE]
      verified    = [c for c in illusion_claims if c.verdict == VERIFIED]
      down_svcs   = [name for name, s in reality.services.items() if not s.reachable]
      warn_level  = _warning_level(illusions, down_svcs)
      briefing = OrientationBriefing(generated_at=reality.scanned_at, ...,
          illusions=illusions, unverifiable=unverif, verified_claims=verified,
          illusion_count=len(illusions), warning_level=warn_level, ...)
  \<close>
  The summary lines, the entries loaded from the database, the work order and the text
  report are not modelled (text rendering and database reads).
\<close>

record OrientationBriefing =
  generated_at :: int
  illusions :: "Claim list"
  unverifiable :: "Claim list"
  verified_claims :: "Claim list"
  illusion_count :: nat
  warning_level :: string

definition down_services :: "RealitySnapshot \<Rightarrow> string list" where
  "down_services reality = map fst (filter (\<lambda>(name, s). \<not> reachable s) (services reality))"

definition synthesize :: "RealitySnapshot \<Rightarrow> Claim list \<Rightarrow> OrientationBriefing" where
  "synthesize reality illusion_claims =
     (let illusions = filter (\<lambda>c. verdict c = ILLUSION) illusion_claims;
          unverif = filter (\<lambda>c. verdict c = UNVERIFIABLE) illusion_claims;
          verified = filter (\<lambda>c. verdict c = VERIFIED) illusion_claims;
          down_svcs = down_services reality;
          warn_level = warning_level_of illusions down_svcs
      in \<lparr> generated_at = scanned_at reality,
           illusions = illusions,
           unverifiable = unverif,
           verified_claims = verified,
           illusion_count = length illusions,
           warning_level = warn_level \<rparr>)"

text \<open>The order GREEN < AMBER < RED of the three levels, as a rank.\<close>

definition level_rank :: "string \<Rightarrow> nat" where
  "level_rank l = (if l = ''RED'' then 2 else if l = ''AMBER'' then 1 else 0)"


subsection \<open>scanner.py and api.py: the scan and the briefing cache\<close>













subsection \<open>Concrete snapshots and claims for the examples\<close>

definition example_service :: "string \<Rightarrow> bool \<Rightarrow> ServiceState" where
  "example_service n up =
     \<lparr> svc_name = n, url = ''https://example.invalid'', reachable = up,
       status_code = (if up then Some 200 else None),
       response_ms = (if up then Some ''12.5'' else None), version = None,
       svc_error = (if up then None else Some ''timed out'') \<rparr>"

definition example_reality :: "(string \<times> bool) list \<Rightarrow> RealitySnapshot" where
  "example_reality svcs =
     \<lparr> scanned_at = 0, git = [], services = map (\<lambda>(n, up). (n, example_service n up)) svcs,
       filesystem = [] \<rparr>"

definition example_claim :: "string \<Rightarrow> string \<Rightarrow> string \<Rightarrow> string \<Rightarrow> Claim" where
  "example_claim ctype expected v sev =
     (new_claim ''e1'' ''current focus'' ctype expected expected v) \<lparr> severity := sev \<rparr>"

definition example_git :: "string \<Rightarrow> string option \<Rightarrow> GitState" where
  "example_git n h =
     \<lparr> repo_name = n, repo_path = ''/repos/'' @ n, available = (h \<noteq> None),
       head_commit = h, branch = (if h = None then None else Some ''master''),
       untracked = [], modified = [], staged = [], ahead_behind = None,
       error = (if h = None then Some (''Path not found: /repos/'' @ n) else None) \<rparr>"


text \<open>
  Two entries of a knowledge base and a snapshot in which \<open>coach\<close> is unreachable,
  \<open>lxr-5\<close> is up, the head of \<open>coach\<close> is \<open>1a2b3c4d5e\<close> and the key file
  \<open>coach/notes.md\<close> does not exist.
\<close>

definition example_entries :: "(string \<times> string \<times> string \<times> string) list" where
  "example_entries =
     [(''42'', ''current focus'', ''status'', ''coach: UP and committed notes.md at 1a2b3c4''),
      (''43'', ''essence'', ''bugs'',
       ''BEFORE STATE: BUG 7 lxr-5 status: healthy; coach health: running'')]"

definition example_snapshot :: RealitySnapshot where
  "example_snapshot =
     \<lparr> scanned_at = 0,
       git = [(''coach'', example_git ''coach'' (Some ''1a2b3c4d5e''))],
       services = [(''coach'', example_service ''coach'' False),
                   (''lxr-5'', example_service ''lxr-5'' True)],
       filesystem = [(''coach/notes.md'', False)] \<rparr>"

definition example_detected :: "Claim list" where
  "example_detected =
     [\<lparr> entry_id = ''42'', entry_priority = ''current focus'', claim_type = ''service_health'',
        claim_text = ''coach: UP'', expected_value = ''coach:UP'', verdict = ''ILLUSION'',
        actual_value = Some ''Service DOWN: timed out'', severity = ''HIGH'',
        claim_note = Some ''Service claimed UP but is unreachable'' \<rparr>,
      \<lparr> entry_id = ''42'', entry_priority = ''current focus'', claim_type = ''file_exists'',
        claim_text = ''committed notes.md'', expected_value = ''notes.md'', verdict = ''ILLUSION'',
        actual_value = Some ''NOT found: coach/notes.md'', severity = ''MEDIUM'',
        claim_note = Some ''File claimed to exist but not found on filesystem'' \<rparr>,
      \<lparr> entry_id = ''43'', entry_priority = ''essence'', claim_type = ''bug_active'',
        claim_text = ''BUG 7 lxr-5 status: healthy; coach health: running'',
        expected_value = ''bug:present'', verdict = ''UNVERIFIABLE'',
        actual_value = None, severity = ''HIGH'',
        claim_note = Some ''Bug status requires code inspection or live test to verify'' \<rparr>,
      \<lparr> entry_id = ''42'', entry_priority = ''current focus'', claim_type = ''git_commit'',
        claim_text = ''at 1a2b3c4'', expected_value = ''1a2b3c4'', verdict = ''VERIFIED'',
        actual_value = Some ''1a2b3c4d5e'', severity = ''LOW'',
        claim_note = Some ''Matches coach HEAD'' \<rparr>,
      \<lparr> entry_id = ''43'', entry_priority = ''essence'', claim_type = ''service_health'',
        claim_text = ''lxr-5 status: healthy; coach health: running'',
        expected_value = ''lxr-5:UP'', verdict = ''VERIFIED'',
        actual_value = Some ''HTTP 200 (12.5ms)'', severity = ''LOW'',
        claim_note = None \<rparr>]"




section \<open>Evaluation\<close>

text \<open>
  \<open>lower_char\<close> on the eight bits of a character, for evaluation: the capitals are the
  code points 0x41..0x5A and 0xC0..0xDE without 0xD7, and their lower case sets bit 5
  (\<open>b0\<close> is the lowest bit).
\<close>

lemma lower_char_bits [code]:
  "lower_char (Char b0 b1 b2 b3 b4 b5 b6 b7) =
     (if \<not> b5 \<and> b6 \<and>
         (if b7 then \<not> (b0 \<and> b1 \<and> b2 \<and> b4)
          else (b0 \<or> b1 \<or> b2 \<or> b3 \<or> b4) \<and> \<not> (b4 \<and> b3 \<and> (b2 \<or> b1 \<and> b0)))
      then Char b0 b1 b2 b3 b4 True b6 b7
      else Char b0 b1 b2 b3 b4 b5 b6 b7)"
  by (cases b0; cases b1; cases b2; cases b3; cases b4; cases b5; cases b6; cases b7;
      simp add: lower_char_def code_def char_of_def bit_0 bit_Suc)


lemma extract_bug_example:
  "extract_claims ''e1'' ''current focus'' ''BUG INVENTORY: BUG 1 no such table'' =
     [(new_claim ''e1'' ''current focus'' ''bug_active'' ''BUG 1 no such table'' ''bug:present''
         UNVERIFIABLE) \<lparr> severity := SEVERITY_HIGH \<rparr>]"
  by code_simp

lemma detect_example:
  "detect_illusions example_entries example_snapshot = Some example_detected"
  by code_simp

section \<open>The warning level\<close>

lemma warning_level_of_iff:
  "warning_level_of cs down =
     (if down \<noteq> [] \<or> (\<exists>c\<in>set cs. verdict c = ILLUSION \<and> severity c = SEVERITY_HIGH)
      then ''RED''
      else if (\<exists>c\<in>set cs. verdict c = ILLUSION \<and> severity c = SEVERITY_MEDIUM)
      then ''AMBER'' else ''GREEN'')"
  unfolding warning_level_of_def list_ex_iff by auto

lemma down_services_empty_iff:
  "down_services reality = [] \<longleftrightarrow> (\<forall>(n, s)\<in>set (services reality). reachable s)"
  unfolding down_services_def by (auto simp: filter_empty_conv)

lemma synthesize_warning_level:
  "warning_level (synthesize reality claims) =
     (if (\<exists>(n, s)\<in>set (services reality). \<not> reachable s) \<or>
         (\<exists>c\<in>set claims. verdict c = ILLUSION \<and> severity c = SEVERITY_HIGH)
      then ''RED''
      else if (\<exists>c\<in>set claims. verdict c = ILLUSION \<and> severity c = SEVERITY_MEDIUM)
      then ''AMBER'' else ''GREEN'')"
proof -
  have "warning_level (synthesize reality claims) =
        warning_level_of (filter (\<lambda>c. verdict c = ILLUSION) claims) (down_services reality)"
    by (simp add: synthesize_def Let_def)
  moreover have "down_services reality \<noteq> [] \<longleftrightarrow> (\<exists>(n, s)\<in>set (services reality). \<not> reachable s)"
    using down_services_empty_iff [of reality] by auto
  moreover have "\<And>v. (\<exists>c\<in>set (filter (\<lambda>c. verdict c = ILLUSION) claims).
                     verdict c = ILLUSION \<and> severity c = v) \<longleftrightarrow>
                 (\<exists>c\<in>set claims. verdict c = ILLUSION \<and> severity c = v)"
    by auto
  ultimately show ?thesis
    by (simp only: warning_level_of_iff)
qed


lemma warning_level_of_cases:
  "warning_level_of cs down = ''RED'' \<or> warning_level_of cs down = ''AMBER'' \<or>
   warning_level_of cs down = ''GREEN''"
  by (simp add: warning_level_of_def)

lemma level_rank_le_red: "level_rank l \<le> level_rank ''RED''"
  by (simp add: level_rank_def)

lemma synthesize_level_eq:
  "warning_level (synthesize reality claims) =
     warning_level_of (filter (\<lambda>c. verdict c = ILLUSION) claims) (down_services reality)"
  by (simp add: synthesize_def Let_def)

text \<open>
  C1.  For every list of claims and every set of service states, the warning level is RED
  if at least one service is unreachable or at least one claim with verdict ILLUSION has
  severity HIGH; otherwise AMBER if at least one claim with verdict ILLUSION has severity
  MEDIUM; otherwise GREEN.  Stated for \<open>_warning_level\<close> on its two arguments (the list of
  unreachable services is then non-empty) and for the level that \<open>synthesize\<close> puts into
  the briefing from the snapshot's service states.
\<close>

theorem warning_level_three_way:
  "warning_level_of cs down =
     (if down \<noteq> [] \<or> (\<exists>c\<in>set cs. verdict c = ILLUSION \<and> severity c = SEVERITY_HIGH)
      then ''RED''
      else if (\<exists>c\<in>set cs. verdict c = ILLUSION \<and> severity c = SEVERITY_MEDIUM)
      then ''AMBER'' else ''GREEN'')
   \<and>
   warning_level (synthesize reality claims) =
     (if (\<exists>(n, s)\<in>set (services reality). \<not> reachable s) \<or>
         (\<exists>c\<in>set claims. verdict c = ILLUSION \<and> severity c = SEVERITY_HIGH)
      then ''RED''
      else if (\<exists>c\<in>set claims. verdict c = ILLUSION \<and> severity c = SEVERITY_MEDIUM)
      then ''AMBER'' else ''GREEN'')"
  using warning_level_of_iff [of cs down] synthesize_warning_level [of reality claims]
  by (rule conjI)

theorem warning_level_three_way_witness:
  "warning_level (synthesize (example_reality [(''coach'', False)]) []) = ''RED'' \<and>
   warning_level (synthesize (example_reality [(''coach'', True)])
      [example_claim ''service_health'' ''lxr:UP'' ILLUSION SEVERITY_HIGH]) = ''RED'' \<and>
   warning_level (synthesize (example_reality [(''coach'', True)])
      [example_claim ''git_commit'' ''1a2b3c4'' ILLUSION SEVERITY_MEDIUM]) = ''AMBER'' \<and>
   warning_level (synthesize (example_reality [(''coach'', True)])
      [example_claim ''bug_active'' ''bug:present'' UNVERIFIABLE SEVERITY_HIGH]) = ''GREEN''"
  using warning_level_three_way [of "[]" "[]" "example_reality [(''coach'', False)]" "[]"]
    warning_level_three_way [of "[]" "[]" "example_reality [(''coach'', True)]"
      "[example_claim ''service_health'' ''lxr:UP'' ILLUSION SEVERITY_HIGH]"]
    warning_level_three_way [of "[]" "[]" "example_reality [(''coach'', True)]"
      "[example_claim ''git_commit'' ''1a2b3c4'' ILLUSION SEVERITY_MEDIUM]"]
    warning_level_three_way [of "[]" "[]" "example_reality [(''coach'', True)]"
      "[example_claim ''bug_active'' ''bug:present'' UNVERIFIABLE SEVERITY_HIGH]"]
  by (simp add: example_reality_def example_service_def example_claim_def new_claim_def
      ILLUSION_def UNVERIFIABLE_def SEVERITY_HIGH_def SEVERITY_MEDIUM_def SEVERITY_LOW_def)

text \<open>
  C7.  Warning-level monotonicity: adding one more unreachable service to the service
  states, or one more claim with verdict ILLUSION and severity HIGH to the claim list,
  everything else unchanged, never yields a level strictly lower in the order
  GREEN < AMBER < RED.  Stated for \<open>_warning_level\<close> (a further name in the list of
  unreachable services) and for the level \<open>synthesize\<close> computes from the snapshot.
\<close>

theorem warning_level_monotone:
  "level_rank (warning_level_of cs (d1 @ d2)) \<le> level_rank (warning_level_of cs (d1 @ n # d2))
   \<and>
   (verdict c = ILLUSION \<and> severity c = SEVERITY_HIGH \<longrightarrow>
      level_rank (warning_level_of (cs1 @ cs2) down) \<le>
      level_rank (warning_level_of (cs1 @ c # cs2) down) \<and>
      level_rank (warning_level (synthesize reality (cs1 @ cs2))) \<le>
      level_rank (warning_level (synthesize reality (cs1 @ c # cs2))))
   \<and>
   (\<not> reachable s \<longrightarrow>
      level_rank (warning_level (synthesize (reality \<lparr> services := sv1 @ sv2 \<rparr>) claims)) \<le>
      level_rank (warning_level (synthesize (reality \<lparr> services := sv1 @ (n, s) # sv2 \<rparr>) claims)))"
proof (intro conjI impI)
  have "warning_level_of cs (d1 @ n # d2) = ''RED''"
    by (simp add: warning_level_of_def)
  then show "level_rank (warning_level_of cs (d1 @ d2)) \<le> level_rank (warning_level_of cs (d1 @ n # d2))"
    by (simp add: level_rank_le_red)
next
  assume h: "verdict c = ILLUSION \<and> severity c = SEVERITY_HIGH"
  then have "warning_level_of (cs1 @ c # cs2) down = ''RED''"
    by (simp add: warning_level_of_iff)
  then show "level_rank (warning_level_of (cs1 @ cs2) down) \<le>
             level_rank (warning_level_of (cs1 @ c # cs2) down)"
    by (simp add: level_rank_le_red)
  from h have "warning_level (synthesize reality (cs1 @ c # cs2)) = ''RED''"
    by (simp add: synthesize_warning_level)
  then show "level_rank (warning_level (synthesize reality (cs1 @ cs2))) \<le>
             level_rank (warning_level (synthesize reality (cs1 @ c # cs2)))"
    by (simp add: level_rank_le_red)
next
  assume "\<not> reachable s"
  then have "warning_level (synthesize (reality \<lparr> services := sv1 @ (n, s) # sv2 \<rparr>) claims) = ''RED''"
    by (simp add: synthesize_warning_level)
  then show "level_rank (warning_level (synthesize (reality \<lparr> services := sv1 @ sv2 \<rparr>) claims)) \<le>
             level_rank (warning_level (synthesize (reality \<lparr> services := sv1 @ (n, s) # sv2 \<rparr>) claims))"
    by (simp add: level_rank_le_red)
qed

theorem warning_level_monotone_witness:
  "level_rank (warning_level (synthesize (example_reality [(''coach'', True)]) [])) = 0 \<and>
   level_rank (warning_level (synthesize (example_reality [(''coach'', True), (''lxr'', False)]) [])) = 2 \<and>
   level_rank (warning_level (synthesize (example_reality [(''coach'', True)])
      [example_claim ''service_health'' ''lxr:UP'' ILLUSION SEVERITY_HIGH])) = 2 \<and>
   level_rank (warning_level (synthesize (example_reality [(''coach'', True)]) [])) \<le>
   level_rank (warning_level (synthesize (example_reality [(''coach'', True), (''lxr'', False)]) [])) \<and>
   level_rank (warning_level (synthesize (example_reality [(''coach'', True)]) [])) \<le>
   level_rank (warning_level (synthesize (example_reality [(''coach'', True)])
      [example_claim ''service_health'' ''lxr:UP'' ILLUSION SEVERITY_HIGH]))"
  using warning_level_monotone [of "[]" "[]" "[]" "''lxr''"
      "example_claim ''service_health'' ''lxr:UP'' ILLUSION SEVERITY_HIGH" "[]" "[]" "[]"
      "example_reality [(''coach'', True)]" "example_service ''lxr'' False"
      "[(''coach'', example_service ''coach'' True)]" "[]" "[]"]
  by (simp add: example_reality_def example_service_def example_claim_def new_claim_def
      synthesize_def warning_level_of_def down_services_def level_rank_def
      ILLUSION_def UNVERIFIABLE_def VERIFIED_def SEVERITY_HIGH_def SEVERITY_MEDIUM_def SEVERITY_LOW_def)

section \<open>What the extractor produces\<close>

lemma service_name_normalize_range:
  "service_name_normalize raw = Some sname \<Longrightarrow>
     sname = ''lxr-5'' \<or> sname = ''coach'' \<or> sname = ''lxr'' \<or> sname = ''ui''"
  by (auto simp: service_name_normalize_def Let_def split: if_splits)

lemma commit_claims_shape:
  assumes "c \<in> set (commit_claims eid prio content)"
  shows "claim_type c = ''git_commit'' \<and> verdict c = UNVERIFIABLE \<and> severity c = SEVERITY_LOW"
  using assms by (auto simp: commit_claims_def new_claim_def)

lemma service_claims_shape:
  assumes "c \<in> set (service_claims eid prio content)"
  shows "claim_type c = ''service_health'' \<and> verdict c = UNVERIFIABLE \<and>
         severity c = SEVERITY_LOW \<and>
         (\<exists>sname. expected_value c = sname @ '':UP'' \<and>
                  (sname = ''lxr-5'' \<or> sname = ''coach'' \<or> sname = ''lxr'' \<or> sname = ''ui''))"
proof -
  from assms obtain m where
    m: "c \<in> set (case service_name_normalize (group_at m 1) of
                     None \<Rightarrow> []
                   | Some sname \<Rightarrow>
                       if sname = [] then []
                       else [new_claim eid prio ''service_health'' (group0 m)
                               (sname @ '':UP'') UNVERIFIABLE])"
    by (auto simp: service_claims_def)
  then obtain sname where
    n: "service_name_normalize (group_at m 1) = Some sname" and
    c: "c = new_claim eid prio ''service_health'' (group0 m) (sname @ '':UP'') UNVERIFIABLE"
    by (cases "service_name_normalize (group_at m 1)") (auto split: if_splits)
  from service_name_normalize_range [OF n] c show ?thesis
    by (auto simp: new_claim_def)
qed

lemma bug_claims_shape:
  assumes "c \<in> set (bug_claims eid prio content)"
  shows "claim_type c = ''bug_active'' \<and> verdict c = UNVERIFIABLE \<and>
         severity c = SEVERITY_HIGH \<and> expected_value c = ''bug:present''"
  using assms by (auto simp: bug_claims_def new_claim_def split: if_splits)

lemma file_claims_shape:
  assumes "c \<in> set (file_claims eid prio content)"
  shows "claim_type c = ''file_exists'' \<and> verdict c = UNVERIFIABLE \<and> severity c = SEVERITY_LOW"
  using assms by (auto simp: file_claims_def new_claim_def Let_def split: if_splits)

lemma extract_claims_cases:
  assumes "c \<in> set (extract_claims eid prio content)"
  shows "c \<in> set (commit_claims eid prio content) \<or> c \<in> set (service_claims eid prio content) \<or>
         c \<in> set (bug_claims eid prio content) \<or> c \<in> set (file_claims eid prio content)"
  using assms by (auto simp: extract_claims_def)

lemma extract_service_health:
  assumes "c \<in> set (extract_claims eid prio content)" and "claim_type c = ''service_health''"
  shows "\<exists>sname. expected_value c = sname @ '':UP'' \<and>
                 (sname = ''lxr-5'' \<or> sname = ''coach'' \<or> sname = ''lxr'' \<or> sname = ''ui'')"
  using extract_claims_cases [OF assms(1)] assms(2)
    commit_claims_shape [of c eid prio content] service_claims_shape [of c eid prio content]
    bug_claims_shape [of c eid prio content] file_claims_shape [of c eid prio content]
  by auto

lemma extract_bug_active:
  assumes "c \<in> set (extract_claims eid prio content)" and "claim_type c = ''bug_active''"
  shows "severity c = SEVERITY_HIGH \<and> verdict c = UNVERIFIABLE"
  using extract_claims_cases [OF assms(1)] assms(2)
    commit_claims_shape [of c eid prio content] service_claims_shape [of c eid prio content]
    bug_claims_shape [of c eid prio content] file_claims_shape [of c eid prio content]
  by auto

lemma all_extracted_member:
  assumes "c \<in> set (all_extracted entries)"
  shows "\<exists>eid prio content. c \<in> set (extract_claims eid prio content)"
  using assms by (auto simp: all_extracted_def)

section \<open>Verification of single claims\<close>







lemma verify_claim_bug_active:
  assumes "claim_type claim = ''bug_active''"
  shows "verify_claim reality claim =
           Some (claim \<lparr> verdict := UNVERIFIABLE,
                         claim_note := Some ''Bug status requires code inspection or live test to verify'' \<rparr>)"
  using assms by (simp add: verify_claim_def verify_bug_active_def)

lemma verify_claim_total:
  assumes "claim_type claim = ''service_health'' \<longrightarrow> CHR '':'' \<in> set (expected_value claim)"
  shows "\<exists>c. verify_claim reality claim = Some c"
  using assms
  by (auto simp: verify_claim_def verify_service_health_def split_colon_def)

lemma verify_claims_total:
  assumes "\<forall>c\<in>set claims. claim_type c = ''service_health'' \<longrightarrow> CHR '':'' \<in> set (expected_value c)"
  shows "\<exists>out. verify_claims claims reality = Some out"
  using assms
proof (induction claims)
  case Nil
  then show ?case by simp
next
  case (Cons c cs)
  then obtain c' where "verify_claim reality c = Some c'"
    using verify_claim_total [of c reality] by auto
  moreover from Cons obtain out where "verify_claims cs reality = Some out"
    by auto
  ultimately show ?case by simp
qed

lemma verify_claim_keeps_key:
  assumes "verify_claim reality claim = Some c"
  shows "claim_type c = claim_type claim \<and> expected_value c = expected_value claim"
  using assms
  by (auto simp: verify_claim_def verify_git_commit_def verify_service_health_def
      verify_bug_active_def verify_file_exists_def Let_def
      split: if_splits option.splits prod.splits)

lemma verify_claims_map:
  assumes "verify_claims claims reality = Some out"
  shows "map Some out = map (verify_claim reality) claims"
  using assms
  by (induction claims arbitrary: out) (auto split: option.splits)

section \<open>Service-health claims\<close>



section \<open>Claims that are not illusions\<close>

text \<open>
  C10.  Claims whose verdict is not ILLUSION never influence the warning level: adding
  such a claim to (or removing it from) the claim list, anywhere in it, leaves the level
  unchanged, for \<open>_warning_level\<close> and for the level \<open>synthesize\<close> computes.  This covers
  the bug-inventory claims: every \<open>bug_active\<close> claim the extractor creates has severity
  HIGH, and verification always resolves a \<open>bug_active\<close> claim to UNVERIFIABLE, its
  severity unchanged.
\<close>

theorem non_illusions_do_not_count:
  "(verdict c \<noteq> ILLUSION \<longrightarrow>
      warning_level_of (cs1 @ c # cs2) down = warning_level_of (cs1 @ cs2) down \<and>
      warning_level (synthesize reality (cs1 @ c # cs2)) =
      warning_level (synthesize reality (cs1 @ cs2)))
   \<and>
   (b \<in> set (extract_claims eid prio content) \<and> claim_type b = ''bug_active'' \<longrightarrow>
      severity b = SEVERITY_HIGH)
   \<and>
   (claim_type b = ''bug_active'' \<longrightarrow>
      (\<exists>b'. verify_claim reality b = Some b' \<and> verdict b' = UNVERIFIABLE \<and>
            verdict b' \<noteq> ILLUSION \<and> severity b' = severity b))"
proof (intro conjI impI)
  assume "verdict c \<noteq> ILLUSION"
  then show "warning_level_of (cs1 @ c # cs2) down = warning_level_of (cs1 @ cs2) down"
    by (simp add: warning_level_of_def)
next
  assume "verdict c \<noteq> ILLUSION"
  then show "warning_level (synthesize reality (cs1 @ c # cs2)) =
             warning_level (synthesize reality (cs1 @ cs2))"
    by (simp add: synthesize_level_eq)
next
  assume "b \<in> set (extract_claims eid prio content) \<and> claim_type b = ''bug_active''"
  then show "severity b = SEVERITY_HIGH"
    using extract_bug_active [of b eid prio content] by simp
next
  assume "claim_type b = ''bug_active''"
  then show "\<exists>b'. verify_claim reality b = Some b' \<and> verdict b' = UNVERIFIABLE \<and>
                  verdict b' \<noteq> ILLUSION \<and> severity b' = severity b"
    by (simp add: verify_claim_bug_active UNVERIFIABLE_def ILLUSION_def)
qed

theorem non_illusions_do_not_count_witness:
  "(new_claim ''e1'' ''current focus'' ''bug_active'' ''BUG 1 no such table'' ''bug:present''
      UNVERIFIABLE) \<lparr> severity := SEVERITY_HIGH \<rparr>
     \<in> set (extract_claims ''e1'' ''current focus'' ''BUG INVENTORY: BUG 1 no such table'') \<and>
   (\<exists>b'. verify_claim (example_reality [(''coach'', True)])
            ((new_claim ''e1'' ''current focus'' ''bug_active'' ''BUG 1 no such table''
                ''bug:present'' UNVERIFIABLE) \<lparr> severity := SEVERITY_HIGH \<rparr>) = Some b' \<and>
         verdict b' = UNVERIFIABLE \<and> severity b' = SEVERITY_HIGH \<and>
         warning_level (synthesize (example_reality [(''coach'', True)]) [b']) = ''GREEN'' \<and>
         warning_level (synthesize (example_reality [(''coach'', True)]) []) = ''GREEN'')"
proof -
  let ?b = "(new_claim ''e1'' ''current focus'' ''bug_active'' ''BUG 1 no such table''
               ''bug:present'' UNVERIFIABLE) \<lparr> severity := SEVERITY_HIGH \<rparr>"
  let ?b' = "?b \<lparr> verdict := UNVERIFIABLE,
                   claim_note := Some ''Bug status requires code inspection or live test to verify'' \<rparr>"
  let ?R = "example_reality [(''coach'', True)]"
  have mem: "?b \<in> set (extract_claims ''e1'' ''current focus'' ''BUG INVENTORY: BUG 1 no such table'')"
    by (simp add: extract_bug_example)
  have ty: "claim_type ?b = ''bug_active''"
    by (simp add: new_claim_def)
  have ver: "verify_claim ?R ?b = Some ?b'"
    using ty by (rule verify_claim_bug_active)
  have ni: "verdict ?b' \<noteq> ILLUSION"
    by (simp add: UNVERIFIABLE_def ILLUSION_def)
  have green: "warning_level (synthesize ?R []) = ''GREEN''"
    by (simp add: synthesize_warning_level example_reality_def example_service_def)
  from non_illusions_do_not_count [of ?b' "[]" "[]" "[]" ?R ?b "''e1''" "''current focus''"
      "''BUG INVENTORY: BUG 1 no such table''"] mem ty ver ni green
  show ?thesis
    by (simp add: new_claim_def)
qed

section \<open>Revision-reference claims\<close>










section \<open>Service-health claims of the extractor\<close>

lemma extracted_service_health_is_up:
  assumes "c \<in> set (extract_claims eid prio content)" and "claim_type c = ''service_health''"
  shows "expected_value c \<noteq> sname @ '':DOWN''"
proof
  assume eq: "expected_value c = sname @ '':DOWN''"
  from extract_service_health [OF assms] obtain s where "expected_value c = s @ '':UP''"
    by blast
  with eq have "last (s @ '':UP'') = last (sname @ '':DOWN'')"
    by simp
  then show False
    by simp
qed

text \<open>
  C6.  The specification has the extractor produce a service-health claim
  \<open><service>:DOWN\<close> for an entry in which a service name is followed, on the same line, by a
  down status word.  On the entry \<open>coach: DOWN\<close> the pattern \<open>RE_SERVICE_DOWN\<close> of the
  module matches the whole text, and \<open>extract_claims\<close> returns no claim at all: it only
  ever runs \<open>RE_SERVICE_UP\<close>.  (By \<open>extracted_service_health_is_up\<close> no entry yields a
  service-health claim that ends in \<open>:DOWN\<close>.)
\<close>

theorem down_pattern_unused:
  "map group0 (finditer RE_SERVICE_DOWN ''coach: DOWN'') = [''coach: DOWN''] \<and>
   extract_claims ''e1'' ''current focus'' ''coach: DOWN'' = []"
  by code_simp

section \<open>Deduplication\<close>

lemma foldl_dedup_snoc:
  "foldl dedup_step st (xs @ [x]) = dedup_step (foldl dedup_step st xs) x"
  by simp

lemma dedup_seen: "fst (foldl dedup_step ({}, []) xs) = dedup_key ` set xs"
proof (induction xs rule: rev_induct)
  case Nil
  then show ?case by simp
next
  case (snoc x xs)
  obtain seen u where st: "foldl dedup_step ({}, []) xs = (seen, u)"
    by (cases "foldl dedup_step ({}, []) xs")
  with snoc have seen: "seen = dedup_key ` set xs"
    by simp
  have "foldl dedup_step ({}, []) (xs @ [x]) = dedup_step (seen, u) x"
    by (simp add: st)
  also have "fst (dedup_step (seen, u) x) = insert (dedup_key x) seen"
    by (auto simp: dedup_step_def)
  finally show ?case
    by (simp add: seen)
qed

lemma deduplicate_snoc:
  "deduplicate (xs @ [x]) =
     (if dedup_key x \<in> dedup_key ` set xs then deduplicate xs else deduplicate xs @ [x])"
proof -
  obtain seen u where st: "foldl dedup_step ({}, []) xs = (seen, u)"
    by (cases "foldl dedup_step ({}, []) xs")
  then have seen: "seen = dedup_key ` set xs"
    using dedup_seen [of xs] by simp
  have "foldl dedup_step ({}, []) (xs @ [x]) = dedup_step (seen, u) x"
    by (simp add: st)
  then have "deduplicate (xs @ [x]) = snd (dedup_step (seen, u) x)"
    by (simp only: deduplicate_def)
  moreover have "deduplicate xs = u"
    by (simp add: deduplicate_def st)
  ultimately show ?thesis
    by (simp add: dedup_step_def seen)
qed

lemma deduplicate_Nil: "deduplicate [] = []"
  by (simp add: deduplicate_def)

lemma deduplicate_subset: "set (deduplicate xs) \<subseteq> set xs"
  by (induction xs rule: rev_induct) (auto simp: deduplicate_Nil deduplicate_snoc)

lemma deduplicate_keys: "dedup_key ` set (deduplicate xs) = dedup_key ` set xs"
  by (induction xs rule: rev_induct) (auto simp: deduplicate_Nil deduplicate_snoc)

lemma deduplicate_distinct: "distinct (map dedup_key (deduplicate xs))"
proof (induction xs rule: rev_induct)
  case Nil
  then show ?case by (simp add: deduplicate_Nil)
next
  case (snoc x xs)
  show ?case
  proof (cases "dedup_key x \<in> dedup_key ` set xs")
    case True
    with snoc show ?thesis by (simp add: deduplicate_snoc)
  next
    case False
    then have "dedup_key x \<notin> dedup_key ` set (deduplicate xs)"
      by (simp add: deduplicate_keys)
    with False snoc show ?thesis by (simp add: deduplicate_snoc)
  qed
qed

lemma find_snoc:
  "find P (xs @ [x]) = (case find P xs of None \<Rightarrow> (if P x then Some x else None) | Some y \<Rightarrow> Some y)"
  by (induction xs) auto

lemma deduplicate_first:
  assumes "c \<in> set (deduplicate xs)"
  shows "find (\<lambda>d. dedup_key d = dedup_key c) xs = Some c"
  using assms
proof (induction xs rule: rev_induct)
  case Nil
  then show ?case by (simp add: deduplicate_Nil)
next
  case (snoc x xs)
  show ?case
  proof (cases "c \<in> set (deduplicate xs)")
    case True
    with snoc.IH show ?thesis by (simp add: find_snoc)
  next
    case False
    with snoc.prems have cx: "c = x" and new: "dedup_key x \<notin> dedup_key ` set xs"
      by (auto simp: deduplicate_snoc split: if_splits)
    from new have "\<forall>d\<in>set xs. dedup_key d \<noteq> dedup_key x"
      by (metis image_eqI)
    then have "find (\<lambda>d. dedup_key d = dedup_key x) xs = None"
      by (simp add: find_None_iff)
    with cx show ?thesis by (simp add: find_snoc)
  qed
qed

lemma deduplicate_positions:
  "deduplicate xs =
     map (nth xs) (filter (\<lambda>i. dedup_key (xs ! i) \<notin> dedup_key ` set (take i xs)) [0..<length xs])"
proof (induction xs rule: rev_induct)
  case Nil
  then show ?case by (simp add: deduplicate_Nil)
next
  case (snoc x xs)
  have a: "filter (\<lambda>i. dedup_key ((xs @ [x]) ! i) \<notin> dedup_key ` set (take i (xs @ [x]))) [0..<length xs] =
           filter (\<lambda>i. dedup_key (xs ! i) \<notin> dedup_key ` set (take i xs)) [0..<length xs]"
    by (rule filter_cong) (auto simp: nth_append)
  have b: "map (nth (xs @ [x])) (filter (\<lambda>i. dedup_key (xs ! i) \<notin> dedup_key ` set (take i xs)) [0..<length xs]) =
           map (nth xs) (filter (\<lambda>i. dedup_key (xs ! i) \<notin> dedup_key ` set (take i xs)) [0..<length xs])"
    by (rule map_cong) (auto simp: nth_append)
  have up: "[0..<length (xs @ [x])] = [0..<length xs] @ [length xs]"
    by simp
  have c: "map (nth (xs @ [x]))
             (filter (\<lambda>i. dedup_key ((xs @ [x]) ! i) \<notin> dedup_key ` set (take i (xs @ [x]))) [length xs]) =
           (if dedup_key x \<in> dedup_key ` set xs then [] else [x])"
    by simp
  have "map (nth (xs @ [x]))
          (filter (\<lambda>i. dedup_key ((xs @ [x]) ! i) \<notin> dedup_key ` set (take i (xs @ [x])))
             [0..<length (xs @ [x])]) =
        deduplicate xs @ (if dedup_key x \<in> dedup_key ` set xs then [] else [x])"
    by (simp only: up filter_append map_append a b c snoc.IH [symmetric])
  then show ?case
    by (simp add: deduplicate_snoc)
qed

text \<open>
  C3.  After deduplication and before verification, no two claims share the same
  (claim type, first 40 characters of the expected value) pair, and of the claims with
  one pair the one kept is the first in extraction order: every kept claim is the first
  claim of the extracted list with its pair, every pair of the extracted list is kept
  once, and the kept list is the list of first occurrences in extraction order.
  \<open>detect_illusions\<close> verifies exactly this list.
\<close>

theorem deduplicate_first_wins:
  "distinct (map dedup_key (deduplicate all_claims)) \<and>
   (\<forall>c\<in>set (deduplicate all_claims). find (\<lambda>d. dedup_key d = dedup_key c) all_claims = Some c) \<and>
   dedup_key ` set (deduplicate all_claims) = dedup_key ` set all_claims \<and>
   deduplicate all_claims =
     map (nth all_claims)
       (filter (\<lambda>i. dedup_key (all_claims ! i) \<notin> dedup_key ` set (take i all_claims))
          [0..<length all_claims]) \<and>
   dedup_key c = (claim_type c, take 40 (expected_value c)) \<and>
   detect_illusions entries reality =
     map_option (sort_key claim_sort_key)
       (verify_claims (deduplicate (all_extracted entries)) reality)"
proof -
  have "detect_illusions entries reality =
          map_option (sort_key claim_sort_key)
            (verify_claims (deduplicate (all_extracted entries)) reality)"
    by (simp add: detect_illusions_def Let_def split: option.splits)
  moreover have "\<forall>c\<in>set (deduplicate all_claims).
                   find (\<lambda>d. dedup_key d = dedup_key c) all_claims = Some c"
    using deduplicate_first by blast
  ultimately show ?thesis
    using deduplicate_distinct [of all_claims] deduplicate_keys [of all_claims]
      deduplicate_positions [of all_claims]
    by (simp add: dedup_key_def)
qed

theorem deduplicate_first_wins_witness:
  "deduplicate
     [example_claim ''service_health'' ''coach:UP'' UNVERIFIABLE SEVERITY_LOW,
      example_claim ''git_commit'' ''1a2b3c4'' UNVERIFIABLE SEVERITY_LOW,
      (example_claim ''service_health'' ''coach:UP'' UNVERIFIABLE SEVERITY_LOW) \<lparr> entry_id := ''e2'' \<rparr>] =
     [example_claim ''service_health'' ''coach:UP'' UNVERIFIABLE SEVERITY_LOW,
      example_claim ''git_commit'' ''1a2b3c4'' UNVERIFIABLE SEVERITY_LOW] \<and>
   find (\<lambda>d. dedup_key d = dedup_key (example_claim ''service_health'' ''coach:UP'' UNVERIFIABLE SEVERITY_LOW))
     [example_claim ''service_health'' ''coach:UP'' UNVERIFIABLE SEVERITY_LOW,
      example_claim ''git_commit'' ''1a2b3c4'' UNVERIFIABLE SEVERITY_LOW,
      (example_claim ''service_health'' ''coach:UP'' UNVERIFIABLE SEVERITY_LOW) \<lparr> entry_id := ''e2'' \<rparr>] =
     Some (example_claim ''service_health'' ''coach:UP'' UNVERIFIABLE SEVERITY_LOW)"
proof -
  let ?a = "example_claim ''service_health'' ''coach:UP'' UNVERIFIABLE SEVERITY_LOW"
  let ?b = "example_claim ''git_commit'' ''1a2b3c4'' UNVERIFIABLE SEVERITY_LOW"
  let ?xs = "[?a, ?b, ?a \<lparr> entry_id := ''e2'' \<rparr>]"
  have ka: "dedup_key ?a = (''service_health'', ''coach:UP'')"
    by (simp add: dedup_key_def example_claim_def new_claim_def)
  have kb: "dedup_key ?b = (''git_commit'', ''1a2b3c4'')"
    by (simp add: dedup_key_def example_claim_def new_claim_def)
  have kc: "dedup_key (?a \<lparr> entry_id := ''e2'' \<rparr>) = (''service_health'', ''coach:UP'')"
    by (simp add: dedup_key_def example_claim_def new_claim_def)
  have d: "deduplicate ?xs = [?a, ?b]"
    by (simp add: deduplicate_def dedup_step_def ka kb kc)
  then have "?a \<in> set (deduplicate ?xs)"
    by simp
  with deduplicate_first_wins [of ?xs ?a "[]" example_snapshot] d show ?thesis
    by blast
qed

section \<open>The order of the detected claims\<close>

lemma dedup_extracted_colon:
  assumes "c \<in> set (deduplicate (all_extracted entries))" and "claim_type c = ''service_health''"
  shows "CHR '':'' \<in> set (expected_value c)"
proof -
  from assms(1) have "c \<in> set (all_extracted entries)"
    using deduplicate_subset by blast
  then obtain eid prio content where "c \<in> set (extract_claims eid prio content)"
    using all_extracted_member by blast
  from extract_service_health [OF this assms(2)] show ?thesis
    by auto
qed

lemma detect_illusions_total:
  "\<exists>verified. verify_claims (deduplicate (all_extracted entries)) reality = Some verified \<and>
              detect_illusions entries reality = Some (sort_key claim_sort_key verified)"
proof -
  have "\<forall>c\<in>set (deduplicate (all_extracted entries)).
          claim_type c = ''service_health'' \<longrightarrow> CHR '':'' \<in> set (expected_value c)"
    using dedup_extracted_colon by blast
  from verify_claims_total [OF this, of reality] obtain verified where
    "verify_claims (deduplicate (all_extracted entries)) reality = Some verified"
    by blast
  then show ?thesis
    by (simp add: detect_illusions_def Let_def)
qed

lemma claim_sort_key_verdict:
  "fst (claim_sort_key c) =
     (if verdict c = ILLUSION then 0 else if verdict c = UNVERIFIABLE then 1
      else if verdict c = VERIFIED then 2 else if verdict c = STALE then 3 else 9)"
  by (simp add: claim_sort_key_def dict_get_def verdict_order_def)

lemma claim_sort_key_severity:
  "snd (claim_sort_key c) =
     (if severity c = SEVERITY_HIGH then 0 else if severity c = SEVERITY_MEDIUM then 1
      else if severity c = SEVERITY_LOW then 2 else 9)"
  by (simp add: claim_sort_key_def dict_get_def sev_order_def)

text \<open>
  C2.  \<open>detect_illusions\<close> returns (it does not raise), and the list it returns is sorted
  by the key (verdict priority, severity priority), the verdict priority first: of every
  two adjacent claims the first has the smaller verdict priority, or the same verdict
  priority and a severity priority that is not larger.  The verdict priorities are
  ILLUSION 0, UNVERIFIABLE 1, VERIFIED 2, STALE 3 (any other text 9), the severity
  priorities HIGH 0, MEDIUM 1, LOW 2 (any other text 9).
\<close>

theorem detected_claims_sorted:
  "\<exists>out. detect_illusions entries reality = Some out \<and>
         (\<forall>i. Suc i < length out \<longrightarrow>
            fst (claim_sort_key (out ! i)) < fst (claim_sort_key (out ! Suc i)) \<or>
            fst (claim_sort_key (out ! i)) = fst (claim_sort_key (out ! Suc i)) \<and>
            snd (claim_sort_key (out ! i)) \<le> snd (claim_sort_key (out ! Suc i))) \<and>
         sorted (map claim_sort_key out) \<and>
         (\<forall>c. fst (claim_sort_key c) =
                (if verdict c = ILLUSION then 0 else if verdict c = UNVERIFIABLE then 1
                 else if verdict c = VERIFIED then 2 else if verdict c = STALE then 3 else 9) \<and>
              snd (claim_sort_key c) =
                (if severity c = SEVERITY_HIGH then 0 else if severity c = SEVERITY_MEDIUM then 1
                 else if severity c = SEVERITY_LOW then 2 else 9))"
proof -
  from detect_illusions_total [of entries reality] obtain verified where
    out: "detect_illusions entries reality = Some (sort_key claim_sort_key verified)"
    by blast
  let ?out = "sort_key claim_sort_key verified"
  have s: "sorted (map claim_sort_key ?out)"
    by (rule sorted_sort_key)
  have adj: "fst (claim_sort_key (?out ! i)) < fst (claim_sort_key (?out ! Suc i)) \<or>
             fst (claim_sort_key (?out ! i)) = fst (claim_sort_key (?out ! Suc i)) \<and>
             snd (claim_sort_key (?out ! i)) \<le> snd (claim_sort_key (?out ! Suc i))"
    if "Suc i < length ?out" for i
  proof -
    from that have l: "Suc i < length (map claim_sort_key ?out)"
      by simp
    from s l have "map claim_sort_key ?out ! i \<le> map claim_sort_key ?out ! Suc i"
      by (simp only: sorted_iff_nth_Suc)
    with that have "claim_sort_key (?out ! i) \<le> claim_sort_key (?out ! Suc i)"
      by simp
    then show ?thesis
      by (auto simp: less_eq_prod_def)
  qed
  from out s adj show ?thesis
    by (simp only: claim_sort_key_verdict claim_sort_key_severity) blast
qed

theorem detected_claims_sorted_witness:
  "detect_illusions example_entries example_snapshot = Some example_detected \<and>
   length example_detected = 5 \<and>
   map claim_sort_key example_detected = [(0, 0), (0, 1), (1, 0), (2, 2), (2, 2)] \<and>
   sorted (map claim_sort_key example_detected)"
proof -
  have k: "map claim_sort_key example_detected = [(0, 0), (0, 1), (1, 0), (2, 2), (2, 2)]"
    by (simp add: example_detected_def claim_sort_key_def dict_get_def verdict_order_def
        sev_order_def ILLUSION_def UNVERIFIABLE_def VERIFIED_def STALE_def
        SEVERITY_HIGH_def SEVERITY_MEDIUM_def SEVERITY_LOW_def)
  from detected_claims_sorted [of example_entries example_snapshot] detect_example k
  show ?thesis
    by (auto simp: example_detected_def)
qed

section \<open>Probing a repository\<close>












section \<open>The briefing cache\<close>

















end
